theory Spec2Isabelle
  imports Main "HOL-Library.Sublist" "HOL-Library.AList"
begin

section \<open>Strings\<close>

text \<open>
  Python's \<open>str\<close> is a sequence of code points. A \<^typ>\<open>char\<close> holds the code points
  below 256, so a \<^typ>\<open>string\<close> stands for a Python string over that range and
  \<^const>\<open>length\<close> counts what Python's \<open>len\<close> counts. \<open>str.lower\<close> maps
  \<open>A\<close>..\<open>Z\<close> and the upper-case letters of the range 192..222 (215, the
  multiplication sign, apart) to the code point 32 above and leaves every other code point
  below 256 alone.
\<close>

definition lower_char :: "char \<Rightarrow> char" where
  "lower_char c =
     (let n = (of_char c :: nat)
      in if (65 \<le> n \<and> n \<le> 90) \<or> (192 \<le> n \<and> n \<le> 222 \<and> n \<noteq> 215)
         then char_of (n + 32) else c)"

definition lower :: "string \<Rightarrow> string" where
  "lower s = map lower_char s"

text \<open>\<open>needle in hay\<close>: the needle occurs as a contiguous run, at the front or further on.\<close>

fun contains :: "string \<Rightarrow> string \<Rightarrow> bool" where
  "contains needle [] = (needle = [])"
| "contains needle (c # cs) = (prefix needle (c # cs) \<or> contains needle cs)"

text \<open>
  \<open>str.strip()\<close> drops leading and trailing white space; below 256 the code points
  with \<open>isspace()\<close> are 9..13, 28..32, 133 and 160.
\<close>

definition isspace :: "char \<Rightarrow> bool" where
  "isspace c = (of_char c \<in> {9, 10, 11, 12, 13, 28, 29, 30, 31, 32, 133, 160 :: nat})"

definition strip :: "string \<Rightarrow> string" where
  "strip s = rev (dropWhile isspace (rev (dropWhile isspace s)))"

text \<open>\<open>s.split(sep)\<close> for a one-character separator: the empty string gives one empty piece.\<close>

fun split :: "char \<Rightarrow> string \<Rightarrow> string list" where
  "split sep [] = [[]]"
| "split sep (c # cs) =
     (if c = sep then [] # split sep cs
      else (case split sep cs of [] \<Rightarrow> [[c]] | w # ws \<Rightarrow> (c # w) # ws))"

text \<open>
  The slice \<open>xs[:n]\<close>: the first \<open>n\<close> elements for \<open>n \<ge> 0\<close>; for a negative
  \<open>n\<close> all but the last \<open>-n\<close>.
\<close>

definition slice_to :: "'a list \<Rightarrow> int \<Rightarrow> 'a list" where
  "slice_to xs n = (if 0 \<le> n then take (nat n) xs else take (length xs - nat (- n)) xs)"

section \<open>Sample text store\<close>

text \<open>
  A Python \<open>dict\<close> keeps its keys in insertion order, and \<open>search_verses\<close> iterates in
  that order: a dictionary is an association list with distinct keys.
\<close>

type_synonym 'v dict = "(string \<times> 'v) list"

definition SAMPLE_TEXTS :: "string dict dict" where
  "SAMPLE_TEXTS =
     [(''ESV'',
       [(''John 3:16'', ''For God so loved the world, that he gave his only Son, that whoever believes in him should not perish but have eternal life.''),
        (''Psalm 23:1'', ''The Lord is my shepherd; I shall not want.'')]),
      (''NIV'',
       [(''John 3:16'', ''For God so loved the world that he gave his one and only Son, that whoever believes in him shall not perish but have eternal life.''),
        (''Psalm 23:1'', ''The Lord is my shepherd, I lack nothing.'')])]"

text \<open>\<open>d.get(k, dflt)\<close>; \<open>d.get(k)\<close> alone is \<^term>\<open>map_of d k\<close>, with \<^term>\<open>None\<close> for Python's.\<close>

definition get_or :: "'v dict \<Rightarrow> string \<Rightarrow> 'v \<Rightarrow> 'v" where
  "get_or d k dflt = (case map_of d k of None \<Rightarrow> dflt | Some v \<Rightarrow> v)"

datatype HTTPException = HTTPException (status_code: nat) (detail: string)

record verse_response =
  vr_reference :: string
  vr_translation :: string
  vr_text :: string

text \<open>\<open>not text\<close> holds for \<open>None\<close> and for the empty string.\<close>

definition get_verse :: "string \<Rightarrow> string \<Rightarrow> HTTPException + verse_response" where
  "get_verse reference translation =
     (let text = map_of (get_or SAMPLE_TEXTS translation []) reference
      in case text of
           None \<Rightarrow> Inl (HTTPException 404 ''Verse not found in sample dataset'')
         | Some s \<Rightarrow>
             if s = [] then Inl (HTTPException 404 ''Verse not found in sample dataset'')
             else Inr \<lparr>vr_reference = reference, vr_translation = translation, vr_text = s\<rparr>)"

record parallel_item =
  pi_translation :: string
  pi_text :: string

record parallel_response =
  pr_reference :: string
  pr_items :: "parallel_item list"

definition get_parallel :: "string \<Rightarrow> string \<Rightarrow> HTTPException + parallel_response" where
  "get_parallel reference translations =
     (let results =
            concat (map (\<lambda>t0.
              let t = strip t0;
                  verse = map_of (get_or SAMPLE_TEXTS t []) reference
              in (case verse of
                    None \<Rightarrow> []
                  | Some s \<Rightarrow> if s \<noteq> [] then [\<lparr>pi_translation = t, pi_text = s\<rparr>] else []))
              (split CHR '','' translations))
      in if results = [] then Inl (HTTPException 404 ''Reference not found'')
         else Inr \<lparr>pr_reference = reference, pr_items = results\<rparr>)"

record SearchQuery =
  q :: string
  translation :: "string option"
  language :: "string option"
  limit :: int

record VoiceSearchQuery =
  transcript :: string
  translation :: "string option"

record search_hit =
  sh_reference :: string
  sh_translation :: string
  sh_snippet :: string

text \<open>
  \<open>payload.translation\<close> is tested for truth: \<open>None\<close> and the empty string both select
  every key of \<open>SAMPLE_TEXTS\<close>.
\<close>

definition search_verses :: "SearchQuery \<Rightarrow> search_hit list" where
  "search_verses payload =
     (let q = lower (q payload);
          translations = (case SearchQuery.translation payload of
                            None \<Rightarrow> map fst SAMPLE_TEXTS
                          | Some t \<Rightarrow> if t \<noteq> [] then [t] else map fst SAMPLE_TEXTS);
          results =
            concat (map (\<lambda>t.
              map (\<lambda>(ref, txt). \<lparr>sh_reference = ref, sh_translation = t, sh_snippet = take 160 txt\<rparr>)
                (filter (\<lambda>(ref, txt). contains q (lower txt)) (get_or SAMPLE_TEXTS t [])))
              translations)
      in slice_to results (limit payload))"

text \<open>\<open>SearchQuery(q=..., translation=...)\<close>: the fields left out take the class defaults.\<close>

definition SearchQuery_init :: "string \<Rightarrow> string option \<Rightarrow> SearchQuery" where
  "SearchQuery_init qv tv = \<lparr>q = qv, translation = tv, language = None, limit = 20\<rparr>"

definition voice_search :: "VoiceSearchQuery \<Rightarrow> search_hit list" where
  "voice_search payload =
     search_verses (SearchQuery_init (transcript payload) (VoiceSearchQuery.translation payload))"

section \<open>Python values and documents\<close>

text \<open>
  The values a document holds. A \<open>datetime\<close> is the naive one the driver decodes, and
  \<open>isoformat()\<close> prints it as \<open>YYYY-MM-DDTHH:MM:SS\<close>, followed by \<open>.ffffff\<close> when the
  microseconds are not zero. \<^term>\<open>zfill w n\<close> is the decimal numeral of \<open>n\<close> on
  \<open>w\<close> digits.
\<close>

datatype datetime =
  Datetime (year: nat) (month: nat) (day: nat) (hour: nat) (minute: nat) (second: nat)
    (microsecond: nat)

datatype pyval =
    PNone
  | PBool bool
  | PInt int
  | PStr string
  | PList "pyval list"
  | PObjectId nat
  | PDatetime datetime

definition digit :: "nat \<Rightarrow> char" where
  "digit n = char_of (48 + n mod 10)"

fun zfill :: "nat \<Rightarrow> nat \<Rightarrow> string" where
  "zfill 0 n = []"
| "zfill (Suc w) n = zfill w (n div 10) @ [digit n]"

definition isoformat :: "datetime \<Rightarrow> string" where
  "isoformat d =
     zfill 4 (year d) @ ''-'' @ zfill 2 (month d) @ ''-'' @ zfill 2 (day d) @ ''T'' @
     zfill 2 (hour d) @ '':'' @ zfill 2 (minute d) @ '':'' @ zfill 2 (second d) @
     (if microsecond d = 0 then [] else ''.'' @ zfill 6 (microsecond d))"

text \<open>
  \<open>to_json\<close> updates the dictionary in place: \<open>doc.pop("_id")\<close> removes the key and
  \<open>doc["id"] = ...\<close> overwrites an entry \<open>id\<close> or appends one; the loop then runs over
  a copy of the items and replaces every value that has an \<open>isoformat\<close> attribute.
  The built-in \<open>str\<close> is a parameter: the function applies it to whatever \<open>_id\<close> holds.
\<close>

definition to_json :: "(pyval \<Rightarrow> string) \<Rightarrow> pyval dict \<Rightarrow> pyval dict" where
  "to_json str doc =
     (if doc = [] then doc
      else
        let doc1 = (case map_of doc ''_id'' of
                      Some v \<Rightarrow> AList.update ''id'' (PStr (str v)) (AList.delete ''_id'' doc)
                    | None \<Rightarrow> doc)
        in fold (\<lambda>(k, v) d. case v of
                                PDatetime t \<Rightarrow> AList.update k (PStr (isoformat t)) d
                              | _ \<Rightarrow> d)
             doc1 doc1)"

text \<open>
  For evaluations on concrete documents: \<open>str\<close> on the values used there as identifiers.
  An object id prints as 24 digits, a string as itself.
\<close>

fun str_id :: "pyval \<Rightarrow> string" where
  "str_id (PObjectId n) = zfill 24 n"
| "str_id (PStr s) = s"
| "str_id _ = []"

section \<open>Document store\<close>

text \<open>
  Modelled from the spec: the module \<open>database\<close> that \<open>main.py\<close> imports is not among
  the sources. The store holds one collection of documents per entity kind, in insertion
  order, and assigns every created record an identifier of its own; the counter stands for
  the identifiers not yet assigned. The store is taken to be reachable.
\<close>

record database =
  collections :: "string \<Rightarrow> pyval dict list"
  next_id :: nat

text \<open>
  Modelled from the spec: \<open>create_document\<close> of the missing module \<open>database\<close>. The
  contract is \<open>createDocument(collectionName, record) -> generated id\<close>: each create appends
  one record to the collection, under an identifier the store assigns, and returns that
  identifier as a string.
\<close>

definition create_document ::
  "(pyval \<Rightarrow> string) \<Rightarrow> database \<Rightarrow> string \<Rightarrow> pyval dict \<Rightarrow> string \<times> database" where
  "create_document str db collection_name data =
     (let oid = PObjectId (next_id db);
          doc = AList.update ''_id'' oid data
      in (str oid,
          db\<lparr>collections := (collections db)
                 (collection_name := collections db collection_name @ [doc]),
             next_id := Suc (next_id db)\<rparr>))"

text \<open>
  Modelled from the spec: \<open>get_documents\<close> of the missing module \<open>database\<close>. The
  contract is \<open>getDocuments(collectionName, filter) -> list of matching records\<close>, the
  filter an exact-match mapping of field name to value, the records in storage order.
\<close>

definition get_documents :: "database \<Rightarrow> string \<Rightarrow> pyval dict \<Rightarrow> pyval dict list" where
  "get_documents db collection_name filter_dict =
     filter (\<lambda>doc. list_all (\<lambda>(k, v). map_of doc k = Some v) filter_dict)
       (collections db collection_name)"

definition empty_db :: database where
  "empty_db = \<lparr>collections = (\<lambda>_. []), next_id = 0\<rparr>"

section \<open>Schemas\<close>

text \<open>
  A pydantic model is the list of its fields: name, annotated type and default
  (\<^term>\<open>None\<close> for a required field). Construction looks every field up in the keyword
  arguments: a value must conform to the annotation (a \<open>str\<close> field takes any string,
  the annotation puts no constraint on its length), a missing field takes its default, and a
  required field that is missing is an error. All errors are collected; with none, the
  instance is the dictionary \<open>model_dump()\<close> returns, fields in declaration order.
\<close>

datatype ftype = TStr | TOptional ftype | TList ftype

datatype field = Field (field_name: string) (field_type: ftype) (field_default: "pyval option")

datatype field_error = Missing string | WrongType string

fun conforms :: "ftype \<Rightarrow> pyval \<Rightarrow> bool" where
  "conforms TStr v = (case v of PStr _ \<Rightarrow> True | _ \<Rightarrow> False)"
| "conforms (TOptional t) v = (v = PNone \<or> conforms t v)"
| "conforms (TList t) v = (case v of PList vs \<Rightarrow> list_all (conforms t) vs | _ \<Rightarrow> False)"

fun validate_field :: "pyval dict \<Rightarrow> field \<Rightarrow> field_error + (string \<times> pyval)" where
  "validate_field kwargs (Field name t dflt) =
     (case map_of kwargs name of
        None \<Rightarrow> (case dflt of None \<Rightarrow> Inl (Missing name) | Some d \<Rightarrow> Inr (name, d))
      | Some v \<Rightarrow> if conforms t v then Inr (name, v) else Inl (WrongType name))"

definition validate :: "field list \<Rightarrow> pyval dict \<Rightarrow> field_error list + pyval dict" where
  "validate schema kwargs =
     (let rs = map (validate_field kwargs) schema;
          errors = [e. Inl e \<leftarrow> rs]
      in if errors = [] then Inr [kv. Inr kv \<leftarrow> rs] else Inl errors)"

text \<open>The classes of \<open>schemas.py\<close> that the routes use.\<close>

definition Highlight :: "field list" where
  "Highlight =
     [Field ''user_id'' TStr None,
      Field ''reference'' TStr None,
      Field ''translation'' TStr None,
      Field ''color'' TStr (Some (PStr ''yellow'')),
      Field ''note'' (TOptional TStr) (Some PNone)]"

definition Bookmark :: "field list" where
  "Bookmark =
     [Field ''user_id'' TStr None,
      Field ''reference'' TStr None,
      Field ''translation'' TStr None,
      Field ''label'' (TOptional TStr) (Some PNone)]"

definition Note :: "field list" where
  "Note =
     [Field ''user_id'' TStr None,
      Field ''reference'' TStr None,
      Field ''translation'' TStr None,
      Field ''content'' TStr None]"

definition VersePlaylist :: "field list" where
  "VersePlaylist =
     [Field ''user_id'' TStr None,
      Field ''title'' TStr None,
      Field ''mood'' (TOptional TStr) (Some PNone),
      Field ''theme'' (TOptional TStr) (Some PNone),
      Field ''references'' (TList TStr) (Some (PList []))]"

text \<open>The request models of \<open>main.py\<close>, field for field the same.\<close>

definition CreateHighlight :: "field list" where
  "CreateHighlight =
     [Field ''user_id'' TStr None,
      Field ''reference'' TStr None,
      Field ''translation'' TStr None,
      Field ''color'' TStr (Some (PStr ''yellow'')),
      Field ''note'' (TOptional TStr) (Some PNone)]"

definition CreateBookmark :: "field list" where
  "CreateBookmark =
     [Field ''user_id'' TStr None,
      Field ''reference'' TStr None,
      Field ''translation'' TStr None,
      Field ''label'' (TOptional TStr) (Some PNone)]"

definition CreateNote :: "field list" where
  "CreateNote =
     [Field ''user_id'' TStr None,
      Field ''reference'' TStr None,
      Field ''translation'' TStr None,
      Field ''content'' TStr None]"

definition CreatePlaylist :: "field list" where
  "CreatePlaylist =
     [Field ''user_id'' TStr None,
      Field ''title'' TStr None,
      Field ''mood'' (TOptional TStr) (Some PNone),
      Field ''theme'' (TOptional TStr) (Some PNone),
      Field ''references'' (TList TStr) (Some (PList []))]"

section \<open>User data routes\<close>

text \<open>
  A create handler receives the validated request model, builds the schema record from
  \<open>payload.model_dump()\<close> and hands it to the store; a validation error of the schema is
  the \<^term>\<open>Inl\<close> branch. A list handler queries the store and serialises every document.
\<close>

definition create_record ::
  "field list \<Rightarrow> string \<Rightarrow> (pyval \<Rightarrow> string) \<Rightarrow> database \<Rightarrow> pyval dict \<Rightarrow>
     (field_error list + string) \<times> database" where
  "create_record schema collection_name str db payload =
     (case validate schema payload of
        Inl errors \<Rightarrow> (Inl errors, db)
      | Inr data \<Rightarrow>
          (let (doc_id, db') = create_document str db collection_name data
           in (Inr doc_id, db')))"

definition create_highlight ::
  "(pyval \<Rightarrow> string) \<Rightarrow> database \<Rightarrow> pyval dict \<Rightarrow> (field_error list + string) \<times> database" where
  "create_highlight = create_record Highlight ''highlight''"

definition create_bookmark ::
  "(pyval \<Rightarrow> string) \<Rightarrow> database \<Rightarrow> pyval dict \<Rightarrow> (field_error list + string) \<times> database" where
  "create_bookmark = create_record Bookmark ''bookmark''"

definition create_note ::
  "(pyval \<Rightarrow> string) \<Rightarrow> database \<Rightarrow> pyval dict \<Rightarrow> (field_error list + string) \<times> database" where
  "create_note = create_record Note ''note''"

definition create_playlist ::
  "(pyval \<Rightarrow> string) \<Rightarrow> database \<Rightarrow> pyval dict \<Rightarrow> (field_error list + string) \<times> database" where
  "create_playlist = create_record VersePlaylist ''verseplaylist''"

definition list_highlights :: "(pyval \<Rightarrow> string) \<Rightarrow> database \<Rightarrow> string \<Rightarrow> pyval dict list" where
  "list_highlights str db user_id =
     map (to_json str) (get_documents db ''highlight'' [(''user_id'', PStr user_id)])"

definition list_bookmarks :: "(pyval \<Rightarrow> string) \<Rightarrow> database \<Rightarrow> string \<Rightarrow> pyval dict list" where
  "list_bookmarks str db user_id =
     map (to_json str) (get_documents db ''bookmark'' [(''user_id'', PStr user_id)])"

text \<open>\<open>if reference:\<close> is false for \<open>None\<close> and for the empty string.\<close>

definition list_notes ::
  "(pyval \<Rightarrow> string) \<Rightarrow> database \<Rightarrow> string \<Rightarrow> string option \<Rightarrow> pyval dict list" where
  "list_notes str db user_id reference =
     (let query = [(''user_id'', PStr user_id)];
          query = (case reference of
                     None \<Rightarrow> query
                   | Some r \<Rightarrow> if r \<noteq> [] then AList.update ''reference'' (PStr r) query
                              else query)
      in map (to_json str) (get_documents db ''note'' query))"

definition list_playlists :: "(pyval \<Rightarrow> string) \<Rightarrow> database \<Rightarrow> string \<Rightarrow> pyval dict list" where
  "list_playlists str db user_id =
     map (to_json str) (get_documents db ''verseplaylist'' [(''user_id'', PStr user_id)])"

section \<open>HTTP layer\<close>

text \<open>
  The routes the decorators register, with what the framework does around a handler: the
  query-string defaults of the signature are filled in, a JSON body is validated against the
  request model and answered with 422 when it fails, a returned value is the body of a 200
  response, an \<open>HTTPException\<close> gives its own status code and detail, and any other
  exception gives 500. The search bodies arrive already parsed.
\<close>

datatype request =
    GetVerse string "string option"
  | GetParallel string "string option"
  | PostSearch SearchQuery
  | PostVoiceSearch VoiceSearchQuery
  | PostHighlights "pyval dict"
  | GetHighlights string
  | PostBookmarks "pyval dict"
  | GetBookmarks string
  | PostNotes "pyval dict"
  | GetNotes string "string option"
  | PostPlaylists "pyval dict"
  | GetPlaylists string

datatype content =
    Verse verse_response
  | Parallel parallel_response
  | Hits "search_hit list"
  | Created string
  | Documents "pyval dict list"
  | Detail string
  | ValidationErrors "field_error list"
  | InternalServerError

datatype response = Response (status: nat) (content: content)

definition raised :: "HTTPException \<Rightarrow> response" where
  "raised e = Response (status_code e) (Detail (detail e))"

definition post ::
  "field list \<Rightarrow>
   ((pyval \<Rightarrow> string) \<Rightarrow> database \<Rightarrow> pyval dict \<Rightarrow> (field_error list + string) \<times> database) \<Rightarrow>
   (pyval \<Rightarrow> string) \<Rightarrow> database \<Rightarrow> pyval dict \<Rightarrow> response \<times> database" where
  "post model handler str db body =
     (case validate model body of
        Inl errors \<Rightarrow> (Response 422 (ValidationErrors errors), db)
      | Inr payload \<Rightarrow>
          (case handler str db payload of
             (Inl errors, db') \<Rightarrow> (Response 500 InternalServerError, db')
           | (Inr doc_id, db') \<Rightarrow> (Response 200 (Created doc_id), db')))"

fun handle :: "(pyval \<Rightarrow> string) \<Rightarrow> database \<Rightarrow> request \<Rightarrow> response \<times> database" where
  "handle str db (GetVerse r t) =
     (case get_verse r (case t of None \<Rightarrow> ''ESV'' | Some t' \<Rightarrow> t') of
        Inl e \<Rightarrow> (raised e, db)
      | Inr v \<Rightarrow> (Response 200 (Verse v), db))"
| "handle str db (GetParallel r ts) =
     (case get_parallel r (case ts of None \<Rightarrow> ''ESV,NIV'' | Some ts' \<Rightarrow> ts') of
        Inl e \<Rightarrow> (raised e, db)
      | Inr v \<Rightarrow> (Response 200 (Parallel v), db))"
| "handle str db (PostSearch payload) = (Response 200 (Hits (search_verses payload)), db)"
| "handle str db (PostVoiceSearch payload) = (Response 200 (Hits (voice_search payload)), db)"
| "handle str db (PostHighlights body) = post CreateHighlight create_highlight str db body"
| "handle str db (GetHighlights user_id) = (Response 200 (Documents (list_highlights str db user_id)), db)"
| "handle str db (PostBookmarks body) = post CreateBookmark create_bookmark str db body"
| "handle str db (GetBookmarks user_id) = (Response 200 (Documents (list_bookmarks str db user_id)), db)"
| "handle str db (PostNotes body) = post CreateNote create_note str db body"
| "handle str db (GetNotes user_id reference) =
     (Response 200 (Documents (list_notes str db user_id reference)), db)"
| "handle str db (PostPlaylists body) = post CreatePlaylist create_playlist str db body"
| "handle str db (GetPlaylists user_id) = (Response 200 (Documents (list_playlists str db user_id)), db)"

section \<open>The sample set and the search as the specification words them\<close>

text \<open>The sample text set: every (translation, reference) pair with its verse text, in
  translation-then-reference order.\<close>

definition sample_set :: "((string \<times> string) \<times> string) list" where
  "sample_set = concat (map (\<lambda>(t, d). map (\<lambda>(r, txt). ((t, r), txt)) d) SAMPLE_TEXTS)"

text \<open>The translations a comma-separated list asks for.\<close>

definition requested :: "string \<Rightarrow> string list" where
  "requested translations = map strip (split CHR '','' translations)"

text \<open>
  The search of the specification: the entries whose lower-cased text has the lower-cased
  query as a substring, over every translation when none is given and over the given one
  otherwise, in the order of the sample set, each snippet the first 160 characters, the list
  cut to at most \<open>limit\<close> entries.
\<close>

definition search_spec :: "SearchQuery \<Rightarrow> search_hit list" where
  "search_spec p =
     take (nat (limit p))
       [\<lparr>sh_reference = r, sh_translation = t, sh_snippet = take 160 txt\<rparr>.
          ((t, r), txt) \<leftarrow> sample_set,
          (case SearchQuery.translation p of None \<Rightarrow> True | Some t' \<Rightarrow> t = t'),
          sublist (lower (q p)) (lower txt)]"

text \<open>A field value as a serialised document shows it: a timestamp as its ISO-8601 string,
  anything else unchanged.\<close>

definition rendered :: "pyval \<Rightarrow> pyval" where
  "rendered v = (case v of PDatetime t \<Rightarrow> PStr (isoformat t) | _ \<Rightarrow> v)"

text \<open>A store with two notes of user \<open>u1\<close> and one of user \<open>u2\<close>.\<close>

definition notes_db :: database where
  "notes_db =
     \<lparr>collections = (\<lambda>_. [])(''note'' :=
        [[(''_id'', PObjectId 1), (''user_id'', PStr ''u1''), (''reference'', PStr ''John 3:16''),
          (''translation'', PStr ''ESV''), (''content'', PStr ''love'')],
         [(''_id'', PObjectId 2), (''user_id'', PStr ''u2''), (''reference'', PStr ''John 3:16''),
          (''translation'', PStr ''ESV''), (''content'', PStr ''gift'')],
         [(''_id'', PObjectId 3), (''user_id'', PStr ''u1''), (''reference'', PStr ''Psalm 23:1''),
          (''translation'', PStr ''NIV''), (''content'', PStr ''rest'')]]),
      next_id = 4\<rparr>"


section \<open>Facts about the sample set\<close>

lemma contains_sublist: "contains needle hay \<longleftrightarrow> sublist needle hay"
  by (induction hay) (simp_all add: sublist_Cons_right)

lemma sample_set_eval:
  "sample_set =
     [((''ESV'', ''John 3:16''), ''For God so loved the world, that he gave his only Son, that whoever believes in him should not perish but have eternal life.''),
      ((''ESV'', ''Psalm 23:1''), ''The Lord is my shepherd; I shall not want.''),
      ((''NIV'', ''John 3:16''), ''For God so loved the world that he gave his one and only Son, that whoever believes in him shall not perish but have eternal life.''),
      ((''NIV'', ''Psalm 23:1''), ''The Lord is my shepherd, I lack nothing.'')]"
  by (simp add: sample_set_def SAMPLE_TEXTS_def)

lemma lookup_sample_set: "map_of (get_or SAMPLE_TEXTS t []) r = map_of sample_set (t, r)"
  by (simp add: sample_set_eval get_or_def SAMPLE_TEXTS_def)

lemma sample_set_nonempty: "map_of sample_set (t, r) = Some txt \<Longrightarrow> txt \<noteq> []"
  by (auto simp add: sample_set_eval split: if_splits)

lemma sample_set_distinct: "distinct (map fst sample_set)"
  by (simp add: sample_set_eval)

lemma SAMPLE_TEXTS_shape:
  "\<exists>x1 x2 x3 x4. SAMPLE_TEXTS =
     [(''ESV'', [(''John 3:16'', x1), (''Psalm 23:1'', x2)]),
      (''NIV'', [(''John 3:16'', x3), (''Psalm 23:1'', x4)])]"
  by (simp add: SAMPLE_TEXTS_def)

lemma scan_sample_set:
  "concat (map (\<lambda>t.
      map (\<lambda>(ref, txt). \<lparr>sh_reference = ref, sh_translation = t, sh_snippet = take 160 txt\<rparr>)
        (filter (\<lambda>(ref, txt). contains needle (lower txt)) (get_or SAMPLE_TEXTS t [])))
      (case tr of None \<Rightarrow> map fst SAMPLE_TEXTS
       | Some t \<Rightarrow> if t \<noteq> [] then [t] else map fst SAMPLE_TEXTS)) =
   [\<lparr>sh_reference = r, sh_translation = t, sh_snippet = take 160 txt\<rparr>.
      ((t, r), txt) \<leftarrow> sample_set,
      (case tr of None \<Rightarrow> True | Some t' \<Rightarrow> t' = [] \<or> t = t'),
      sublist needle (lower txt)]"
proof -
  obtain x1 x2 x3 x4 where shape: "SAMPLE_TEXTS =
     [(''ESV'', [(''John 3:16'', x1), (''Psalm 23:1'', x2)]),
      (''NIV'', [(''John 3:16'', x3), (''Psalm 23:1'', x4)])]"
    using SAMPLE_TEXTS_shape by blast
  show ?thesis
  proof (cases tr)
    case None
    then show ?thesis
      by (simp add: sample_set_def shape get_or_def contains_sublist)
  next
    case (Some t)
    then show ?thesis
      by (auto simp add: sample_set_def shape get_or_def contains_sublist)
  qed
qed

lemma search_verses_scan:
  "search_verses p =
     slice_to
       [\<lparr>sh_reference = r, sh_translation = t, sh_snippet = take 160 txt\<rparr>.
          ((t, r), txt) \<leftarrow> sample_set,
          (case SearchQuery.translation p of None \<Rightarrow> True | Some t' \<Rightarrow> t' = [] \<or> t = t'),
          sublist (lower (q p)) (lower txt)]
       (limit p)"
  unfolding search_verses_def Let_def
  by (simp only: scan_sample_set)

lemma parallel_item_of_sample_set:
  "(case map_of (get_or SAMPLE_TEXTS t []) r of
      None \<Rightarrow> []
    | Some s \<Rightarrow> if s \<noteq> [] then [\<lparr>pi_translation = t, pi_text = s\<rparr>] else []) =
   [\<lparr>pi_translation = t, pi_text = txt\<rparr>. ((t', r'), txt) \<leftarrow> sample_set, t' = t \<and> r' = r]"
  by (auto simp add: sample_set_eval get_or_def SAMPLE_TEXTS_def)

lemma no_item_iff:
  "[\<lparr>pi_translation = t, pi_text = txt\<rparr>. ((t', r'), txt) \<leftarrow> sample_set, t' = t \<and> r' = r] = [] \<longleftrightarrow>
   (t, r) \<notin> fst ` set sample_set"
  by (auto simp add: sample_set_eval)

lemma get_parallel_items:
  "get_parallel r ts =
     (let results = concat (map (\<lambda>t. [\<lparr>pi_translation = t, pi_text = txt\<rparr>.
                                         ((t', r'), txt) \<leftarrow> sample_set, t' = t \<and> r' = r])
                                 (requested ts))
      in if results = [] then Inl (HTTPException 404 ''Reference not found'')
         else Inr \<lparr>pr_reference = r, pr_items = results\<rparr>)"
  unfolding get_parallel_def requested_def Let_def map_map comp_def
  by (simp only: parallel_item_of_sample_set)

section \<open>Verse lookup\<close>

text \<open>
  C1. For every (translation, reference) pair present in the sample text set,
  \<open>GET /api/verse\<close> returns the body whose text field is exactly the stored verse text;
  for every pair absent from the sample set it raises the 404 exception.
\<close>

theorem get_verse_sample_set:
  "(((t, r), txt) \<in> set sample_set \<longrightarrow>
      get_verse r t = Inr \<lparr>vr_reference = r, vr_translation = t, vr_text = txt\<rparr>) \<and>
   ((t, r) \<notin> fst ` set sample_set \<longrightarrow>
      get_verse r t = Inl (HTTPException 404 ''Verse not found in sample dataset''))"
proof (intro conjI impI)
  assume "((t, r), txt) \<in> set sample_set"
  then have "map_of sample_set (t, r) = Some txt"
    using sample_set_distinct by simp
  then show "get_verse r t = Inr \<lparr>vr_reference = r, vr_translation = t, vr_text = txt\<rparr>"
    using sample_set_nonempty [of t r "txt"]
    by (simp add: get_verse_def lookup_sample_set)
next
  assume "(t, r) \<notin> fst ` set sample_set"
  then have "map_of sample_set (t, r) = None"
    by (simp add: map_of_eq_None_iff)
  then show "get_verse r t = Inl (HTTPException 404 ''Verse not found in sample dataset'')"
    by (simp add: get_verse_def lookup_sample_set)
qed

theorem get_verse_sample_set_witness:
  "((''NIV'', ''Psalm 23:1''), ''The Lord is my shepherd, I lack nothing.'') \<in> set sample_set \<and>
   get_verse ''Psalm 23:1'' ''NIV'' =
     Inr \<lparr>vr_reference = ''Psalm 23:1'', vr_translation = ''NIV'',
          vr_text = ''The Lord is my shepherd, I lack nothing.''\<rparr> \<and>
   (''KJV'', ''Psalm 23:1'') \<notin> fst ` set sample_set \<and>
   get_verse ''Psalm 23:1'' ''KJV'' = Inl (HTTPException 404 ''Verse not found in sample dataset'')"
  using get_verse_sample_set [of "''NIV''" "''Psalm 23:1''" "''The Lord is my shepherd, I lack nothing.''"]
        get_verse_sample_set [of "''KJV''" "''Psalm 23:1''"]
  by (simp add: sample_set_eval)

section \<open>Search\<close>

text \<open>
  C2, as the specification states it, fails twice. An empty translation string is given,
  yet the handler scans every translation: the query \<open>shepherd\<close> with translation
  \<open>""\<close> finds both psalm verses where the specification scans the translation \<open>""\<close>
  and finds none. A negative limit does not bound the length: the empty query with limit
  \<open>-1\<close> returns three of the four verses.
\<close>

theorem search_verses_counterexample:
  "search_verses \<lparr>q = ''shepherd'', translation = Some '''', language = None, limit = 20\<rparr> =
     [\<lparr>sh_reference = ''Psalm 23:1'', sh_translation = ''ESV'',
       sh_snippet = ''The Lord is my shepherd; I shall not want.''\<rparr>,
      \<lparr>sh_reference = ''Psalm 23:1'', sh_translation = ''NIV'',
       sh_snippet = ''The Lord is my shepherd, I lack nothing.''\<rparr>] \<and>
   search_spec \<lparr>q = ''shepherd'', translation = Some '''', language = None, limit = 20\<rparr> = [] \<and>
   length (search_verses \<lparr>q = '''', translation = None, language = None, limit = - 1\<rparr>) = 3 \<and>
   search_spec \<lparr>q = '''', translation = None, language = None, limit = - 1\<rparr> = []"
  by code_simp

text \<open>
  C2, amended. For every search payload with a non-negative limit, \<open>POST /api/search\<close>
  returns exactly the entries (reference, translation, snippet) for which the lower-cased
  query is a substring of the lower-cased verse text, scanning all translations when the
  translation is unspecified or the empty string and only the given translation otherwise,
  in translation-then-reference order, every snippet the first 160 characters of the
  matched text, the list cut to its first \<open>limit\<close> entries.
\<close>

theorem search_verses_entries:
  "0 \<le> limit p \<Longrightarrow>
   search_verses p =
     take (nat (limit p))
       [\<lparr>sh_reference = r, sh_translation = t, sh_snippet = take 160 txt\<rparr>.
          ((t, r), txt) \<leftarrow> sample_set,
          (case SearchQuery.translation p of None \<Rightarrow> True | Some t' \<Rightarrow> t' = [] \<or> t = t'),
          sublist (lower (q p)) (lower txt)]"
  by (simp add: search_verses_scan slice_to_def)

theorem search_verses_entries_witness:
  "0 \<le> limit \<lparr>q = ''Shepherd'', translation = Some ''NIV'', language = None, limit = 5\<rparr> \<and>
   search_verses \<lparr>q = ''Shepherd'', translation = Some ''NIV'', language = None, limit = 5\<rparr> =
     [\<lparr>sh_reference = ''Psalm 23:1'', sh_translation = ''NIV'',
       sh_snippet = ''The Lord is my shepherd, I lack nothing.''\<rparr>]"
proof -
  let ?p = "\<lparr>q = ''Shepherd'', translation = Some ''NIV'', language = None, limit = 5\<rparr>"
  have h: "0 \<le> limit ?p"
    by simp
  have eval: "take (nat (limit ?p))
       [\<lparr>sh_reference = r, sh_translation = t, sh_snippet = take 160 txt\<rparr>.
          ((t, r), txt) \<leftarrow> sample_set,
          (case SearchQuery.translation ?p of None \<Rightarrow> True | Some t' \<Rightarrow> t' = [] \<or> t = t'),
          sublist (lower (q ?p)) (lower txt)] =
     [\<lparr>sh_reference = ''Psalm 23:1'', sh_translation = ''NIV'',
       sh_snippet = ''The Lord is my shepherd, I lack nothing.''\<rparr>]"
    by code_simp
  from search_verses_entries [OF h] eval
  have "search_verses ?p =
     [\<lparr>sh_reference = ''Psalm 23:1'', sh_translation = ''NIV'',
       sh_snippet = ''The Lord is my shepherd, I lack nothing.''\<rparr>]"
    by (rule trans)
  with h show ?thesis
    by (rule conjI)
qed

section \<open>Parallel lookup\<close>

text \<open>
  C4. For every reference and every comma-separated translation list,
  \<open>GET /api/parallel\<close> returns the (translation, text) pairs of exactly those requested
  translations that hold the reference, in the order requested and without the others, and
  raises the 404 exception if and only if no requested translation holds the reference.
\<close>

theorem get_parallel_requested:
  "((\<forall>t \<in> set (requested ts). (t, r) \<notin> fst ` set sample_set) \<longrightarrow>
      get_parallel r ts = Inl (HTTPException 404 ''Reference not found'')) \<and>
   ((\<exists>t \<in> set (requested ts). (t, r) \<in> fst ` set sample_set) \<longrightarrow>
      get_parallel r ts =
        Inr \<lparr>pr_reference = r,
             pr_items = [\<lparr>pi_translation = t, pi_text = txt\<rparr>.
                           t \<leftarrow> requested ts, ((t', r'), txt) \<leftarrow> sample_set, t' = t \<and> r' = r]\<rparr>)"
proof -
  let ?item = "\<lambda>t. [\<lparr>pi_translation = t, pi_text = txt\<rparr>.
                       ((t', r'), txt) \<leftarrow> sample_set, t' = t \<and> r' = r]"
  have empty: "concat (map ?item (requested ts)) = [] \<longleftrightarrow>
               (\<forall>t \<in> set (requested ts). (t, r) \<notin> fst ` set sample_set)"
    using no_item_iff [of _ r] by simp
  show ?thesis
    unfolding get_parallel_items Let_def using empty by auto
qed

theorem get_parallel_requested_witness:
  "requested ''ESV, KJV,NIV'' = [''ESV'', ''KJV'', ''NIV''] \<and>
   (\<exists>t \<in> set (requested ''ESV, KJV,NIV''). (t, ''Psalm 23:1'') \<in> fst ` set sample_set) \<and>
   get_parallel ''Psalm 23:1'' ''ESV, KJV,NIV'' =
     Inr \<lparr>pr_reference = ''Psalm 23:1'',
          pr_items = [\<lparr>pi_translation = ''ESV'', pi_text = ''The Lord is my shepherd; I shall not want.''\<rparr>,
                      \<lparr>pi_translation = ''NIV'', pi_text = ''The Lord is my shepherd, I lack nothing.''\<rparr>]\<rparr> \<and>
   \<not> (\<exists>t \<in> set (requested ''ESV, KJV,NIV''). (t, ''Psalm 1:1'') \<in> fst ` set sample_set) \<and>
   get_parallel ''Psalm 1:1'' ''ESV, KJV,NIV'' = Inl (HTTPException 404 ''Reference not found'')"
proof -
  have req: "requested ''ESV, KJV,NIV'' = [''ESV'', ''KJV'', ''NIV'']"
    by code_simp
  show ?thesis
    using get_parallel_requested [of "''ESV, KJV,NIV''" "''Psalm 23:1''"]
          get_parallel_requested [of "''ESV, KJV,NIV''" "''Psalm 1:1''"]
    by (simp add: req sample_set_eval)
qed

section \<open>Voice search\<close>

text \<open>
  C6. For every transcript and optional translation, \<open>POST /api/voice-search\<close> returns
  exactly what \<open>POST /api/search\<close> returns for the payload whose query is the transcript
  verbatim, with the same translation, no language and the default limit 20.
\<close>

theorem voice_search_delegates:
  "voice_search v =
     search_verses \<lparr>q = transcript v, translation = VoiceSearchQuery.translation v,
                    language = None, limit = 20\<rparr> \<and>
   handle str db (PostVoiceSearch v) =
     handle str db (PostSearch \<lparr>q = transcript v, translation = VoiceSearchQuery.translation v,
                                language = None, limit = 20\<rparr>)"
  by (simp add: voice_search_def SearchQuery_init_def)


section \<open>A search that finds nothing\<close>

text \<open>
  C5, as stated, fails: no verse contains \<open>zzz\<close>, and the search answers 200 with an
  empty list; the handler has no not-found branch.
\<close>

theorem search_nothing_counterexample:
  "handle str_id empty_db
     (PostSearch \<lparr>q = ''zzz'', translation = None, language = None, limit = 20\<rparr>) =
   (Response 200 (Hits []), empty_db)"
proof -
  have "search_verses \<lparr>q = ''zzz'', translation = None, language = None, limit = 20\<rparr> = []"
    by code_simp
  then show ?thesis
    by simp
qed

text \<open>
  C5, amended. Every search is answered with status 200, and whenever no verse text of the
  sample set contains the query the body is the empty list: a search that yields nothing is
  a success with no entries, not a NotFound.
\<close>

theorem search_nothing_is_empty_success:
  "status (fst (handle str db (PostSearch p))) = 200 \<and>
   (list_all (\<lambda>(k, txt). \<not> sublist (lower (q p)) (lower txt)) sample_set \<longrightarrow>
      fst (handle str db (PostSearch p)) = Response 200 (Hits []))"
proof -
  have "list_all (\<lambda>(k, txt). \<not> sublist (lower (q p)) (lower txt)) sample_set \<Longrightarrow>
        search_verses p = []"
    unfolding search_verses_scan
    by (simp add: sample_set_eval slice_to_def)
  then show ?thesis
    by auto
qed

theorem search_nothing_is_empty_success_witness:
  "list_all (\<lambda>(k, txt). \<not> sublist (lower ''zzz'') (lower txt)) sample_set \<and>
   fst (handle str_id empty_db
          (PostSearch \<lparr>q = ''zzz'', translation = Some ''ESV'', language = None, limit = 3\<rparr>)) =
     Response 200 (Hits [])"
proof -
  have none: "list_all (\<lambda>(k, txt). \<not> sublist (lower ''zzz'') (lower txt)) sample_set"
    by code_simp
  show ?thesis
    using none search_nothing_is_empty_success
      [of str_id empty_db "\<lparr>q = ''zzz'', translation = Some ''ESV'', language = None, limit = 3\<rparr>"]
    by simp
qed

section \<open>Repeated searches\<close>

text \<open>
  C9. The response to \<open>POST /api/search\<close> is a function of the payload alone: it is
  the same in any two states of the document store, the only state the routes change, and
  the search leaves that state as it was. Two evaluations on the same payload therefore
  return identical result lists, whatever requests were served in between.
\<close>

theorem search_is_deterministic:
  "fst (handle str db (PostSearch p)) = fst (handle str' db' (PostSearch p)) \<and>
   snd (handle str db (PostSearch p)) = db"
  by simp

theorem search_is_deterministic_witness:
  "fst (handle str_id empty_db
          (PostSearch \<lparr>q = ''god'', translation = None, language = None, limit = 1\<rparr>)) =
   fst (handle str_id notes_db
          (PostSearch \<lparr>q = ''god'', translation = None, language = None, limit = 1\<rparr>)) \<and>
   snd (handle str_id empty_db
          (PostSearch \<lparr>q = ''god'', translation = None, language = None, limit = 1\<rparr>)) = empty_db"
  by (rule search_is_deterministic)


section \<open>Serialising a document\<close>

lemma isoformat_loop_lookup:
  "distinct (map fst items) \<Longrightarrow>
   map_of (fold (\<lambda>(k, v) d. case v of
                               PDatetime t \<Rightarrow> AList.update k (PStr (isoformat t)) d
                             | _ \<Rightarrow> d) items acc) key =
   (case map_of items key of
      Some (PDatetime t) \<Rightarrow> Some (PStr (isoformat t))
    | _ \<Rightarrow> map_of acc key)"
proof (induction items arbitrary: acc)
  case Nil
  then show ?case by simp
next
  case (Cons item items)
  let ?f = "\<lambda>(k, v) d. case v of
                           PDatetime t \<Rightarrow> AList.update k (PStr (isoformat t)) d
                         | _ \<Rightarrow> d"
  obtain k v where item: "item = (k, v)"
    by (cases item)
  from Cons.prems item have fresh: "map_of items k = None" and rest: "distinct (map fst items)"
    by (simp_all add: map_of_eq_None_iff)
  have step: "map_of (?f item acc) key =
      (if key = k then (case v of PDatetime t \<Rightarrow> Some (PStr (isoformat t)) | _ \<Rightarrow> map_of acc key)
       else map_of acc key)"
    by (cases v) (simp_all add: item update_conv')
  have "map_of (fold ?f (item # items) acc) key = map_of (fold ?f items (?f item acc)) key"
    by simp
  also have "\<dots> = (case map_of items key of
                     Some (PDatetime t) \<Rightarrow> Some (PStr (isoformat t))
                   | _ \<Rightarrow> map_of (?f item acc) key)"
    by (rule Cons.IH [OF rest])
  also have "\<dots> = (case map_of (item # items) key of
                     Some (PDatetime t) \<Rightarrow> Some (PStr (isoformat t))
                   | _ \<Rightarrow> map_of acc key)"
    unfolding step using fresh
    by (cases "key = k") (simp_all add: item split: option.splits pyval.splits)
  finally show ?case .
qed

lemma isoformat_loop_keys:
  "set (map fst items) \<subseteq> set (map fst acc) \<Longrightarrow>
   map fst (fold (\<lambda>(k, v) d. case v of
                               PDatetime t \<Rightarrow> AList.update k (PStr (isoformat t)) d
                             | _ \<Rightarrow> d) items acc) = map fst acc"
proof (induction items arbitrary: acc)
  case Nil
  then show ?case by simp
next
  case (Cons item items)
  obtain k v where item: "item = (k, v)"
    by (cases item)
  from Cons.prems item have k: "k \<in> set (map fst acc)" and rest: "set (map fst items) \<subseteq> set (map fst acc)"
    by simp_all
  show ?case
  proof (cases v)
    case (PDatetime t)
    from k have keys: "map fst (AList.update k (PStr (isoformat t)) acc) = map fst acc"
      by (simp add: update_keys)
    with rest have "set (map fst items) \<subseteq> set (map fst (AList.update k (PStr (isoformat t)) acc))"
      by simp
    from Cons.IH [OF this] keys show ?thesis
      by (simp add: item PDatetime)
  qed (simp_all add: item Cons.IH [OF rest])
qed

lemma rendered_lookup:
  "(case m of Some (PDatetime t) \<Rightarrow> Some (PStr (isoformat t)) | _ \<Rightarrow> m) = map_option rendered m"
  by (cases m) (simp_all add: rendered_def split: pyval.splits)

lemma to_json_lookup:
  assumes "distinct (map fst doc)"
  shows "map_of (to_json str doc) key =
     map_option rendered
       ((case map_of doc ''_id'' of
           Some v \<Rightarrow> (map_of doc)(''_id'' := None, ''id'' \<mapsto> PStr (str v))
         | None \<Rightarrow> map_of doc) key)"
proof (cases "doc = []")
  case True
  then show ?thesis
    by (simp add: to_json_def)
next
  case False
  let ?f = "\<lambda>(k, v) d. case v of
                           PDatetime t \<Rightarrow> AList.update k (PStr (isoformat t)) d
                         | _ \<Rightarrow> d"
  show ?thesis
  proof (cases "map_of doc ''_id''")
    case None
    with False have "to_json str doc = fold ?f doc doc"
      by (simp add: to_json_def)
    then have "map_of (to_json str doc) key = map_option rendered (map_of doc key)"
      by (simp only: isoformat_loop_lookup [OF assms] rendered_lookup)
    with None show ?thesis
      by simp
  next
    case (Some v)
    let ?doc1 = "AList.update ''id'' (PStr (str v)) (AList.delete ''_id'' doc)"
    from assms have d1: "distinct (map fst ?doc1)"
      by (intro distinct_update distinct_delete)
    from False Some have "to_json str doc = fold ?f ?doc1 ?doc1"
      by (simp add: to_json_def Let_def)
    then have "map_of (to_json str doc) key = map_option rendered (map_of ?doc1 key)"
      by (simp only: isoformat_loop_lookup [OF d1] rendered_lookup)
    also have "map_of ?doc1 key = ((map_of doc)(''_id'' := None, ''id'' \<mapsto> PStr (str v))) key"
      by (simp only: update_conv' delete_conv')
    finally show ?thesis
      using Some by simp
  qed
qed

lemma to_json_keys:
  "map fst (to_json str doc) =
     (case map_of doc ''_id'' of
        Some v \<Rightarrow> map fst (AList.update ''id'' (PStr (str v)) (AList.delete ''_id'' doc))
      | None \<Rightarrow> map fst doc)"
  by (cases "map_of doc ''_id''") (auto simp add: to_json_def Let_def isoformat_loop_keys)

text \<open>
  C7. For every stored document that a list endpoint serialises, the value of \<open>_id\<close>
  appears as a plain string under the key \<open>id\<close> and the key \<open>_id\<close> is gone, every
  timestamp field is its ISO-8601 string, and every other field is unchanged; the list
  endpoint applies this to each document it reads.
\<close>

theorem to_json_fields:
  assumes "distinct (map fst doc)"
  shows "(\<forall>v. map_of doc ''_id'' = Some v \<longrightarrow> map_of (to_json str doc) ''id'' = Some (PStr (str v))) \<and>
         ''_id'' \<notin> set (map fst (to_json str doc)) \<and>
         distinct (map fst (to_json str doc)) \<and>
         (\<forall>key t. key \<noteq> ''_id'' \<and> key \<noteq> ''id'' \<and> map_of doc key = Some (PDatetime t) \<longrightarrow>
            map_of (to_json str doc) key = Some (PStr (isoformat t))) \<and>
         (\<forall>key. key \<noteq> ''_id'' \<and> key \<noteq> ''id'' \<and> (\<forall>t. map_of doc key \<noteq> Some (PDatetime t)) \<longrightarrow>
            map_of (to_json str doc) key = map_of doc key) \<and>
         list_highlights str db user_id =
           map (to_json str) (get_documents db ''highlight'' [(''user_id'', PStr user_id)])"
proof (intro conjI allI impI)
  fix v assume "map_of doc ''_id'' = Some v"
  then show "map_of (to_json str doc) ''id'' = Some (PStr (str v))"
    by (simp add: to_json_lookup [OF assms] rendered_def)
next
  show "''_id'' \<notin> set (map fst (to_json str doc))"
  proof (cases "map_of doc ''_id''")
    case None
    then have "''_id'' \<notin> set (map fst doc)"
      by (simp add: map_of_eq_None_iff)
    then show ?thesis
      unfolding to_json_keys None by simp
  next
    case (Some v)
    then show ?thesis
      by (simp add: to_json_keys update_keys delete_keys)
  qed
next
  show "distinct (map fst (to_json str doc))"
    using assms
    by (cases "map_of doc ''_id''") (simp_all add: to_json_keys distinct_update distinct_delete)
next
  fix key t
  assume "key \<noteq> ''_id'' \<and> key \<noteq> ''id'' \<and> map_of doc key = Some (PDatetime t)"
  then show "map_of (to_json str doc) key = Some (PStr (isoformat t))"
    by (cases "map_of doc ''_id''") (simp_all add: to_json_lookup [OF assms] rendered_def)
next
  fix key
  assume key: "key \<noteq> ''_id'' \<and> key \<noteq> ''id'' \<and> (\<forall>t. map_of doc key \<noteq> Some (PDatetime t))"
  then have "map_option rendered (map_of doc key) = map_of doc key"
    by (cases "map_of doc key") (auto simp add: rendered_def split: pyval.splits)
  with key show "map_of (to_json str doc) key = map_of doc key"
    by (cases "map_of doc ''_id''") (simp_all add: to_json_lookup [OF assms])
next
  show "list_highlights str db user_id =
          map (to_json str) (get_documents db ''highlight'' [(''user_id'', PStr user_id)])"
    by (simp add: list_highlights_def)
qed

theorem to_json_fields_witness:
  "distinct (map fst [(''_id'', PObjectId 7), (''user_id'', PStr ''u1''),
                      (''created_at'', PDatetime (Datetime 2024 1 2 3 4 5 0))]) \<and>
   map_of (to_json str_id [(''_id'', PObjectId 7), (''user_id'', PStr ''u1''),
                           (''created_at'', PDatetime (Datetime 2024 1 2 3 4 5 0))]) ''id'' =
     Some (PStr ''000000000000000000000007'') \<and>
   ''_id'' \<notin> set (map fst (to_json str_id [(''_id'', PObjectId 7), (''user_id'', PStr ''u1''),
                           (''created_at'', PDatetime (Datetime 2024 1 2 3 4 5 0))])) \<and>
   map_of (to_json str_id [(''_id'', PObjectId 7), (''user_id'', PStr ''u1''),
                           (''created_at'', PDatetime (Datetime 2024 1 2 3 4 5 0))]) ''created_at'' =
     Some (PStr ''2024-01-02T03:04:05'') \<and>
   map_of (to_json str_id [(''_id'', PObjectId 7), (''user_id'', PStr ''u1''),
                           (''created_at'', PDatetime (Datetime 2024 1 2 3 4 5 0))]) ''user_id'' =
     Some (PStr ''u1'')"
proof -
  let ?doc = "[(''_id'', PObjectId 7), (''user_id'', PStr ''u1''),
               (''created_at'', PDatetime (Datetime 2024 1 2 3 4 5 0))]"
  have d: "distinct (map fst ?doc)"
    by simp
  have oid: "str_id (PObjectId 7) = ''000000000000000000000007''"
    by code_simp
  have iso: "isoformat (Datetime 2024 1 2 3 4 5 0) = ''2024-01-02T03:04:05''"
    by code_simp
  note fields = to_json_fields [OF d, of str_id empty_db "''u1''"]
  from fields have "map_of (to_json str_id ?doc) ''id'' = Some (PStr (str_id (PObjectId 7)))"
    by simp
  moreover from fields have "''_id'' \<notin> set (map fst (to_json str_id ?doc))"
    by blast
  moreover from fields
  have "map_of (to_json str_id ?doc) ''created_at'' =
          Some (PStr (isoformat (Datetime 2024 1 2 3 4 5 0)))"
    by simp
  moreover from fields have "map_of (to_json str_id ?doc) ''user_id'' = Some (PStr ''u1'')"
    by simp
  ultimately show ?thesis
    using d by (simp only: oid iso simp_thms)
qed

section \<open>Listing notes\<close>

lemma list_notes_query:
  "list_notes str db U ref =
     map (to_json str)
       [d \<leftarrow> collections db ''note''.
          map_of d ''user_id'' = Some (PStr U) \<and>
          (case ref of None \<Rightarrow> True
           | Some R \<Rightarrow> R = [] \<or> map_of d ''reference'' = Some (PStr R))]"
proof (cases ref)
  case None
  then show ?thesis
    by (simp add: list_notes_def get_documents_def)
next
  case (Some R)
  then show ?thesis
    by (cases "R = []") (simp_all add: list_notes_def get_documents_def)
qed

text \<open>
  C8, as stated, fails at the empty reference, which is not absent: for user \<open>u1\<close> and
  reference \<open>""\<close> the handler returns the notes on John 3:16 and on Psalm 23:1.
\<close>

theorem list_notes_counterexample:
  "list_notes str_id notes_db ''u1'' (Some []) =
     [[(''user_id'', PStr ''u1''), (''reference'', PStr ''John 3:16''),
       (''translation'', PStr ''ESV''), (''content'', PStr ''love''),
       (''id'', PStr ''000000000000000000000001'')],
      [(''user_id'', PStr ''u1''), (''reference'', PStr ''Psalm 23:1''),
       (''translation'', PStr ''NIV''), (''content'', PStr ''rest''),
       (''id'', PStr ''000000000000000000000003'')]]"
  by code_simp

text \<open>
  C8, amended. For every user_id U and every non-empty reference R,
  \<open>GET /api/notes?user_id=U&reference=R\<close> returns the stored notes whose user_id equals
  U and whose reference equals R, serialised, and every note it returns has user_id U and
  reference R.
\<close>

theorem list_notes_both_filters:
  assumes "R \<noteq> []" and "\<forall>d \<in> set (collections db ''note''). distinct (map fst d)"
  shows "list_notes str db U (Some R) =
           map (to_json str)
             [d \<leftarrow> collections db ''note''.
                map_of d ''user_id'' = Some (PStr U) \<and> map_of d ''reference'' = Some (PStr R)] \<and>
         (\<forall>out \<in> set (list_notes str db U (Some R)).
            map_of out ''user_id'' = Some (PStr U) \<and> map_of out ''reference'' = Some (PStr R))"
proof
  from assms(1)
  show eq: "list_notes str db U (Some R) =
           map (to_json str)
             [d \<leftarrow> collections db ''note''.
                map_of d ''user_id'' = Some (PStr U) \<and> map_of d ''reference'' = Some (PStr R)]"
    by (simp add: list_notes_query)
  show "\<forall>out \<in> set (list_notes str db U (Some R)).
            map_of out ''user_id'' = Some (PStr U) \<and> map_of out ''reference'' = Some (PStr R)"
  proof
    fix out assume "out \<in> set (list_notes str db U (Some R))"
    with eq obtain d where d: "d \<in> set (collections db ''note'')" "out = to_json str d"
      and u: "map_of d ''user_id'' = Some (PStr U)" and r: "map_of d ''reference'' = Some (PStr R)"
      by auto
    from assms(2) d have dist: "distinct (map fst d)"
      by blast
    from u r show "map_of out ''user_id'' = Some (PStr U) \<and> map_of out ''reference'' = Some (PStr R)"
      unfolding d(2)
      by (cases "map_of d ''_id''") (simp_all add: to_json_lookup [OF dist] rendered_def)
  qed
qed

theorem list_notes_both_filters_witness:
  "''John 3:16'' \<noteq> [] \<and>
   list_all (\<lambda>d. distinct (map fst d)) (collections notes_db ''note'') \<and>
   list_notes str_id notes_db ''u1'' (Some ''John 3:16'') =
     [[(''user_id'', PStr ''u1''), (''reference'', PStr ''John 3:16''),
       (''translation'', PStr ''ESV''), (''content'', PStr ''love''),
       (''id'', PStr ''000000000000000000000001'')]]"
proof -
  have ne: "''John 3:16'' \<noteq> []"
    by simp
  have dist: "list_all (\<lambda>d. distinct (map fst d)) (collections notes_db ''note'')"
    by (simp add: notes_db_def)
  then have dist': "\<forall>d \<in> set (collections notes_db ''note''). distinct (map fst d)"
    by (simp only: list_all_iff)
  have eval: "map (to_json str_id)
             [d \<leftarrow> collections notes_db ''note''.
                map_of d ''user_id'' = Some (PStr ''u1'') \<and>
                map_of d ''reference'' = Some (PStr ''John 3:16'')] =
     [[(''user_id'', PStr ''u1''), (''reference'', PStr ''John 3:16''),
       (''translation'', PStr ''ESV''), (''content'', PStr ''love''),
       (''id'', PStr ''000000000000000000000001'')]]"
    by code_simp
  from list_notes_both_filters [OF ne dist', of str_id "''u1''"]
  have "list_notes str_id notes_db ''u1'' (Some ''John 3:16'') =
           map (to_json str_id)
             [d \<leftarrow> collections notes_db ''note''.
                map_of d ''user_id'' = Some (PStr ''u1'') \<and>
                map_of d ''reference'' = Some (PStr ''John 3:16'')]"
    by (rule conjunct1)
  with eval have "list_notes str_id notes_db ''u1'' (Some ''John 3:16'') =
     [[(''user_id'', PStr ''u1''), (''reference'', PStr ''John 3:16''),
       (''translation'', PStr ''ESV''), (''content'', PStr ''love''),
       (''id'', PStr ''000000000000000000000001'')]]"
    by (simp only:)
  with ne dist show ?thesis
    by (intro conjI)
qed

text \<open>
  C10. For every user_id U, \<open>GET /api/notes\<close> with user_id U and the empty string for
  reference puts no reference filter in the query: it returns what the call without a
  reference returns, every stored note whose user_id is U, whatever its reference.
\<close>

theorem list_notes_empty_reference:
  "list_notes str db U (Some []) = list_notes str db U None \<and>
   list_notes str db U (Some []) =
     map (to_json str) [d \<leftarrow> collections db ''note''. map_of d ''user_id'' = Some (PStr U)]"
  by (simp add: list_notes_query)

theorem list_notes_empty_reference_witness:
  "list_notes str_id notes_db ''u2'' (Some []) = list_notes str_id notes_db ''u2'' None \<and>
   list_notes str_id notes_db ''u2'' (Some []) =
     [[(''user_id'', PStr ''u2''), (''reference'', PStr ''John 3:16''),
       (''translation'', PStr ''ESV''), (''content'', PStr ''gift''),
       (''id'', PStr ''000000000000000000000002'')]]"
proof -
  have eval: "map (to_json str_id)
      [d \<leftarrow> collections notes_db ''note''. map_of d ''user_id'' = Some (PStr ''u2'')] =
     [[(''user_id'', PStr ''u2''), (''reference'', PStr ''John 3:16''),
       (''translation'', PStr ''ESV''), (''content'', PStr ''gift''),
       (''id'', PStr ''000000000000000000000002'')]]"
    by code_simp
  note both = list_notes_empty_reference [of str_id notes_db "''u2''"]
  from both have same: "list_notes str_id notes_db ''u2'' (Some []) = list_notes str_id notes_db ''u2'' None"
    by (rule conjunct1)
  from both have "list_notes str_id notes_db ''u2'' (Some []) =
      map (to_json str_id)
        [d \<leftarrow> collections notes_db ''note''. map_of d ''user_id'' = Some (PStr ''u2'')]"
    by (rule conjunct2)
  with eval have "list_notes str_id notes_db ''u2'' (Some []) =
     [[(''user_id'', PStr ''u2''), (''reference'', PStr ''John 3:16''),
       (''translation'', PStr ''ESV''), (''content'', PStr ''gift''),
       (''id'', PStr ''000000000000000000000002'')]]"
    by (simp only:)
  with same show ?thesis
    by (intro conjI)
qed


section \<open>Schema construction\<close>

lemma collected_errors: "Inl e \<in> set rs \<Longrightarrow> e \<in> set [e'. Inl e' \<leftarrow> rs]"
  by (induction rs) (auto split: sum.splits)

lemma validate_rejects:
  assumes "f \<in> set schema" and "validate_field kwargs f = Inl e"
  shows "\<exists>errors. validate schema kwargs = Inl errors \<and> e \<in> set errors"
proof -
  let ?rs = "map (validate_field kwargs) schema"
  let ?errors = "[e'. Inl e' \<leftarrow> ?rs]"
  from assms have "Inl e \<in> set ?rs"
    by force
  then have mem: "e \<in> set ?errors"
    by (rule collected_errors)
  have "\<forall>xs. e \<in> set xs \<longrightarrow> xs \<noteq> []"
    by auto
  with mem have "?errors \<noteq> []"
    by blast
  then have "validate schema kwargs = Inl ?errors"
    unfolding validate_def Let_def by (simp only: if_False)
  with mem show ?thesis
    by blast
qed

lemma required_field_is_str:
  assumes "schema \<in> {Highlight, Bookmark, Note, VersePlaylist}"
    and "f \<in> set schema" and "field_default f = None"
  shows "field_type f = TStr"
  using assms
  by (auto simp add: Highlight_def Bookmark_def Note_def VersePlaylist_def)

lemma str_field_rejected:
  assumes "field_type f = TStr" and "field_default f = None"
    and "\<forall>s. map_of kwargs (field_name f) \<noteq> Some (PStr s)"
  shows "validate_field kwargs f = Inl (Missing (field_name f)) \<or>
         validate_field kwargs f = Inl (WrongType (field_name f))"
  using assms
  by (cases f) (auto split: option.splits pyval.splits)

lemma validate_Highlight:
  "validate Highlight [(''user_id'', PStr u), (''reference'', PStr r), (''translation'', PStr t)] =
     Inr [(''user_id'', PStr u), (''reference'', PStr r), (''translation'', PStr t),
          (''color'', PStr ''yellow''), (''note'', PNone)]"
  by (simp add: validate_def Highlight_def)

lemma validate_Bookmark:
  "validate Bookmark [(''user_id'', PStr u), (''reference'', PStr r), (''translation'', PStr t)] =
     Inr [(''user_id'', PStr u), (''reference'', PStr r), (''translation'', PStr t),
          (''label'', PNone)]"
  by (simp add: validate_def Bookmark_def)

lemma validate_Note:
  "validate Note [(''user_id'', PStr u), (''reference'', PStr r), (''translation'', PStr t),
                  (''content'', PStr c)] =
     Inr [(''user_id'', PStr u), (''reference'', PStr r), (''translation'', PStr t),
          (''content'', PStr c)]"
  by (simp add: validate_def Note_def)

lemma validate_VersePlaylist:
  "validate VersePlaylist [(''user_id'', PStr u), (''title'', PStr c)] =
     Inr [(''user_id'', PStr u), (''title'', PStr c), (''mood'', PNone), (''theme'', PNone),
          (''references'', PList [])]"
  by (simp add: validate_def VersePlaylist_def)

lemma validate_CreateHighlight:
  "validate CreateHighlight [(''user_id'', PStr u), (''reference'', PStr r), (''translation'', PStr t)] =
     Inr [(''user_id'', PStr u), (''reference'', PStr r), (''translation'', PStr t),
          (''color'', PStr ''yellow''), (''note'', PNone)]"
  by (simp add: validate_def CreateHighlight_def)

lemma validate_Highlight_dump:
  "validate Highlight [(''user_id'', PStr u), (''reference'', PStr r), (''translation'', PStr t),
          (''color'', PStr ''yellow''), (''note'', PNone)] =
     Inr [(''user_id'', PStr u), (''reference'', PStr r), (''translation'', PStr t),
          (''color'', PStr ''yellow''), (''note'', PNone)]"
  by (simp add: validate_def Highlight_def)

lemma post_highlight_stored:
  "handle str db (PostHighlights
      [(''user_id'', PStr u), (''reference'', PStr r), (''translation'', PStr t)]) =
   (Response 200 (Created (str (PObjectId (next_id db)))),
    db\<lparr>collections := (collections db)(''highlight'' := collections db ''highlight'' @
          [[(''user_id'', PStr u), (''reference'', PStr r), (''translation'', PStr t),
            (''color'', PStr ''yellow''), (''note'', PNone), (''_id'', PObjectId (next_id db))]]),
       next_id := Suc (next_id db)\<rparr>)"
  by (simp add: post_def validate_CreateHighlight create_highlight_def create_record_def
      validate_Highlight_dump create_document_def Let_def)

lemma validate_CreateBookmark:
  "validate CreateBookmark [(''user_id'', PStr u), (''reference'', PStr r), (''translation'', PStr t)] =
     Inr [(''user_id'', PStr u), (''reference'', PStr r), (''translation'', PStr t),
          (''label'', PNone)]"
  by (simp add: validate_def CreateBookmark_def)

lemma validate_CreateNote:
  "validate CreateNote [(''user_id'', PStr u), (''reference'', PStr r), (''translation'', PStr t),
                        (''content'', PStr c)] =
     Inr [(''user_id'', PStr u), (''reference'', PStr r), (''translation'', PStr t),
          (''content'', PStr c)]"
  by (simp add: validate_def CreateNote_def)

lemma validate_CreatePlaylist:
  "validate CreatePlaylist [(''user_id'', PStr u), (''title'', PStr c)] =
     Inr [(''user_id'', PStr u), (''title'', PStr c), (''mood'', PNone), (''theme'', PNone),
          (''references'', PList [])]"
  by (simp add: validate_def CreatePlaylist_def)

subsection \<open>A validated instance validates again\<close>

lemma all_results_Inr: "[e. Inl e \<leftarrow> rs] = [] \<Longrightarrow> map Inr [kv. Inr kv \<leftarrow> rs] = rs"
  by (induction rs) (auto split: sum.splits)

lemma results_of_instance:
  "[e. Inl e \<leftarrow> map Inr xs] = [] \<and> [kv. Inr kv \<leftarrow> map Inr xs] = xs"
  by (induction xs) simp_all

lemma validate_results:
  assumes "validate schema kwargs = Inr inst"
  shows "map (validate_field kwargs) schema = map Inr inst"
proof -
  let ?rs = "map (validate_field kwargs) schema"
  from assms have none: "[e. Inl e \<leftarrow> ?rs] = []" and inst: "inst = [kv. Inr kv \<leftarrow> ?rs]"
    unfolding validate_def Let_def by (auto split: if_splits)
  from all_results_Inr [OF none] inst show ?thesis
    by simp
qed

lemma validate_field_accepts:
  assumes "validate_field kwargs f = Inr (n, v)"
  shows "n = field_name f \<and>
         (map_of kwargs (field_name f) = Some v \<and> conforms (field_type f) v \<or>
          map_of kwargs (field_name f) = None \<and> field_default f = Some v)"
  using assms by (cases f) (auto split: option.splits if_splits)

lemma instance_lookup:
  assumes "map (validate_field kwargs) schema = map Inr inst"
    and "distinct (map field_name schema)" and "f \<in> set schema"
  shows "\<exists>v. validate_field kwargs f = Inr (field_name f, v) \<and>
             map_of inst (field_name f) = Some v"
  using assms
proof (induction schema arbitrary: inst)
  case Nil
  then show ?case by simp
next
  case (Cons g gs)
  from Cons.prems(1) obtain kv rest where inst: "inst = kv # rest"
    and g: "validate_field kwargs g = Inr kv"
    and gs: "map (validate_field kwargs) gs = map Inr rest"
    by (cases inst) auto
  obtain n v where kv: "kv = (n, v)"
    by (cases kv)
  from g kv have n: "n = field_name g"
    using validate_field_accepts [of kwargs g n v] by simp
  show ?case
  proof (cases "f = g")
    case True
    with g kv n inst show ?thesis
      by simp
  next
    case False
    with Cons.prems have f: "f \<in> set gs" and dist: "distinct (map field_name gs)"
      and "field_name g \<notin> field_name ` set gs"
      by simp_all
    then have fresh: "field_name f \<noteq> field_name g"
      by (metis imageI)
    from Cons.IH [OF gs dist f] fresh kv n inst show ?thesis
      by auto
  qed
qed

lemma validate_again:
  assumes ok: "validate schema kwargs = Inr inst"
    and dist: "distinct (map field_name schema)"
    and dflt: "\<forall>f \<in> set schema. \<forall>d. field_default f = Some d \<longrightarrow> conforms (field_type f) d"
  shows "validate schema inst = Inr inst"
proof -
  note rs = validate_results [OF ok]
  have same: "\<forall>f \<in> set schema. validate_field inst f = validate_field kwargs f"
  proof
    fix f assume f: "f \<in> set schema"
    from instance_lookup [OF rs dist f] obtain v
      where v: "validate_field kwargs f = Inr (field_name f, v)"
        and look: "map_of inst (field_name f) = Some v"
      by blast
    from validate_field_accepts [OF v] dflt f have "conforms (field_type f) v"
      by blast
    with look v show "validate_field inst f = validate_field kwargs f"
      by (cases f) simp
  qed
  then have "map (validate_field inst) schema = map (validate_field kwargs) schema"
    by simp
  with rs have "map (validate_field inst) schema = map Inr inst"
    by simp
  then have "validate schema inst =
      (let rs = map Inr inst; errors = [e. Inl e \<leftarrow> rs]
       in if errors = [] then Inr [kv. Inr kv \<leftarrow> rs] else Inl errors)"
    by (simp only: validate_def)
  also have "\<dots> = Inr inst"
    by (simp only: Let_def results_of_instance refl if_True)
  finally show ?thesis .
qed

lemma required_str_kept:
  assumes ok: "validate schema kwargs = Inr inst"
    and dist: "distinct (map field_name schema)"
    and f: "Field n TStr None \<in> set schema"
  shows "\<exists>s. map_of kwargs n = Some (PStr s) \<and> map_of inst n = Some (PStr s)"
proof -
  from instance_lookup [OF validate_results [OF ok] dist f] obtain v
    where v: "validate_field kwargs (Field n TStr None) = Inr (n, v)"
      and look: "map_of inst n = Some v"
    by auto
  from v have "map_of kwargs n = Some v \<and> (\<exists>s. v = PStr s)"
    by (auto split: option.splits if_splits pyval.splits)
  with look show ?thesis
    by auto
qed

lemma post_created:
  assumes ok: "validate schema body = Inr payload"
    and dist: "distinct (map field_name schema)"
    and dflt: "\<forall>f \<in> set schema. \<forall>d. field_default f = Some d \<longrightarrow> conforms (field_type f) d"
    and user: "Field ''user_id'' TStr None \<in> set schema"
  shows "post schema (create_record schema coll) str db body =
           (Response 200 (Created (str (PObjectId (next_id db)))),
            db\<lparr>collections := (collections db)(coll := collections db coll @
                  [AList.update ''_id'' (PObjectId (next_id db)) payload]),
               next_id := Suc (next_id db)\<rparr>) \<and>
         (\<exists>s. map_of body ''user_id'' = Some (PStr s) \<and>
              map_of (AList.update ''_id'' (PObjectId (next_id db)) payload) ''user_id'' =
                Some (PStr s))"
proof
  from ok validate_again [OF ok dist dflt]
  show "post schema (create_record schema coll) str db body =
           (Response 200 (Created (str (PObjectId (next_id db)))),
            db\<lparr>collections := (collections db)(coll := collections db coll @
                  [AList.update ''_id'' (PObjectId (next_id db)) payload]),
               next_id := Suc (next_id db)\<rparr>)"
    by (simp add: post_def create_record_def create_document_def Let_def)
  from required_str_kept [OF ok dist user]
  show "\<exists>s. map_of body ''user_id'' = Some (PStr s) \<and>
              map_of (AList.update ''_id'' (PObjectId (next_id db)) payload) ''user_id'' =
                Some (PStr s)"
    by (auto simp add: update_conv')
qed

lemma model_is_schema:
  "CreateHighlight = Highlight" "CreateBookmark = Bookmark" "CreateNote = Note"
  "CreatePlaylist = VersePlaylist"
  by (simp_all add: CreateHighlight_def Highlight_def CreateBookmark_def Bookmark_def
      CreateNote_def Note_def CreatePlaylist_def VersePlaylist_def)

lemma schema_well_formed:
  assumes "schema \<in> {Highlight, Bookmark, Note, VersePlaylist}"
  shows "distinct (map field_name schema) \<and>
         (\<forall>f \<in> set schema. \<forall>d. field_default f = Some d \<longrightarrow> conforms (field_type f) d) \<and>
         Field ''user_id'' TStr None \<in> set schema"
  using assms
  by (auto simp add: Highlight_def Bookmark_def Note_def VersePlaylist_def)

lemma create_route:
  assumes "(mk, model, coll) \<in>
     {(PostHighlights, CreateHighlight, ''highlight''),
      (PostBookmarks, CreateBookmark, ''bookmark''),
      (PostNotes, CreateNote, ''note''),
      (PostPlaylists, CreatePlaylist, ''verseplaylist'')}"
  shows "\<exists>schema \<in> {Highlight, Bookmark, Note, VersePlaylist}.
           model = schema \<and>
           handle str db (mk body) = post schema (create_record schema coll) str db body"
  using assms
  by (auto simp add: model_is_schema create_highlight_def create_bookmark_def create_note_def
      create_playlist_def)

lemma create_route_rejects:
  assumes route: "(mk, model, coll) \<in>
     {(PostHighlights, CreateHighlight, ''highlight''),
      (PostBookmarks, CreateBookmark, ''bookmark''),
      (PostNotes, CreateNote, ''note''),
      (PostPlaylists, CreatePlaylist, ''verseplaylist'')}"
    and bad: "validate model body = Inl errs"
  shows "handle str db (mk body) = (Response 422 (ValidationErrors errs), db)"
proof -
  from create_route [OF route, of str db body] obtain schema
    where "model = schema"
      and "handle str db (mk body) = post schema (create_record schema coll) str db body"
    by blast
  with bad show ?thesis
    by (simp add: post_def)
qed

lemma create_route_stores:
  assumes route: "(mk, model, coll) \<in>
     {(PostHighlights, CreateHighlight, ''highlight''),
      (PostBookmarks, CreateBookmark, ''bookmark''),
      (PostNotes, CreateNote, ''note''),
      (PostPlaylists, CreatePlaylist, ''verseplaylist'')}"
    and ok: "validate model body = Inr payload"
  shows "handle str db (mk body) =
           (Response 200 (Created (str (PObjectId (next_id db)))),
            db\<lparr>collections := (collections db)(coll := collections db coll @
                  [AList.update ''_id'' (PObjectId (next_id db)) payload]),
               next_id := Suc (next_id db)\<rparr>) \<and>
         (\<exists>s. map_of body ''user_id'' = Some (PStr s) \<and>
              map_of (AList.update ''_id'' (PObjectId (next_id db)) payload) ''user_id'' =
                Some (PStr s))"
proof -
  from create_route [OF route, of str db body] obtain schema
    where schema: "schema \<in> {Highlight, Bookmark, Note, VersePlaylist}" and "model = schema"
      and h: "handle str db (mk body) = post schema (create_record schema coll) str db body"
    by blast
  with ok have ok': "validate schema body = Inr payload"
    by simp
  from schema_well_formed [OF schema]
  have "distinct (map field_name schema)"
    and "\<forall>f \<in> set schema. \<forall>d. field_default f = Some d \<longrightarrow> conforms (field_type f) d"
    and "Field ''user_id'' TStr None \<in> set schema"
    by blast+
  from post_created [OF ok' this, of coll str db] h show ?thesis
    by simp
qed

lemma post_bookmark_stored:
  "handle str db (PostBookmarks
      [(''user_id'', PStr u), (''reference'', PStr r), (''translation'', PStr t)]) =
   (Response 200 (Created (str (PObjectId (next_id db)))),
    db\<lparr>collections := (collections db)(''bookmark'' := collections db ''bookmark'' @
          [[(''user_id'', PStr u), (''reference'', PStr r), (''translation'', PStr t),
            (''label'', PNone), (''_id'', PObjectId (next_id db))]]),
       next_id := Suc (next_id db)\<rparr>)"
  using create_route_stores
    [of PostBookmarks CreateBookmark "''bookmark''" _ _ str db, OF _ validate_CreateBookmark]
  by simp

lemma post_note_stored:
  "handle str db (PostNotes
      [(''user_id'', PStr u), (''reference'', PStr r), (''translation'', PStr t),
       (''content'', PStr c)]) =
   (Response 200 (Created (str (PObjectId (next_id db)))),
    db\<lparr>collections := (collections db)(''note'' := collections db ''note'' @
          [[(''user_id'', PStr u), (''reference'', PStr r), (''translation'', PStr t),
            (''content'', PStr c), (''_id'', PObjectId (next_id db))]]),
       next_id := Suc (next_id db)\<rparr>)"
  using create_route_stores
    [of PostNotes CreateNote "''note''" _ _ str db, OF _ validate_CreateNote]
  by simp

lemma post_playlist_stored:
  "handle str db (PostPlaylists [(''user_id'', PStr u), (''title'', PStr c)]) =
   (Response 200 (Created (str (PObjectId (next_id db)))),
    db\<lparr>collections := (collections db)(''verseplaylist'' := collections db ''verseplaylist'' @
          [[(''user_id'', PStr u), (''title'', PStr c), (''mood'', PNone), (''theme'', PNone),
            (''references'', PList []), (''_id'', PObjectId (next_id db))]]),
       next_id := Suc (next_id db)\<rparr>)"
  using create_route_stores
    [of PostPlaylists CreatePlaylist "''verseplaylist''" _ _ str db, OF _ validate_CreatePlaylist]
  by simp

lemma create_route_rejects_field:
  assumes route: "(mk, model, coll) \<in>
     {(PostHighlights, CreateHighlight, ''highlight''),
      (PostBookmarks, CreateBookmark, ''bookmark''),
      (PostNotes, CreateNote, ''note''),
      (PostPlaylists, CreatePlaylist, ''verseplaylist'')}"
    and f: "f \<in> set model" "field_default f = None"
    and bad: "\<forall>s. map_of body (field_name f) \<noteq> Some (PStr s)"
  shows "\<exists>errors. handle str db (mk body) = (Response 422 (ValidationErrors errors), db) \<and>
           (Missing (field_name f) \<in> set errors \<or> WrongType (field_name f) \<in> set errors)"
proof -
  from create_route [OF route, of str db body] obtain schema
    where schema: "schema \<in> {Highlight, Bookmark, Note, VersePlaylist}" and m: "model = schema"
    by blast
  with f have "field_type f = TStr"
    using required_field_is_str [of schema f] by blast
  with f bad have "validate_field body f = Inl (Missing (field_name f)) \<or>
                   validate_field body f = Inl (WrongType (field_name f))"
    using str_field_rejected [of f body] by blast
  with f obtain errors where errors: "validate model body = Inl errors"
    and "Missing (field_name f) \<in> set errors \<or> WrongType (field_name f) \<in> set errors"
    using validate_rejects [of f model body] by blast
  with create_route_rejects [OF route errors, of str db] show ?thesis
    by blast
qed

text \<open>
  C3, as stated, fails: the fields are annotated \<open>str\<close> with no length constraint, and a
  Highlight whose user_id and reference are both empty is constructed, answered with 200 and
  stored with its empty user_id.
\<close>

theorem create_highlight_counterexample:
  "validate Highlight [(''user_id'', PStr []), (''reference'', PStr []), (''translation'', PStr ''ESV'')] =
     Inr [(''user_id'', PStr []), (''reference'', PStr []), (''translation'', PStr ''ESV''),
          (''color'', PStr ''yellow''), (''note'', PNone)] \<and>
   fst (handle str_id empty_db (PostHighlights
      [(''user_id'', PStr []), (''reference'', PStr []), (''translation'', PStr ''ESV'')])) =
     Response 200 (Created ''000000000000000000000000'') \<and>
   collections (snd (handle str_id empty_db (PostHighlights
      [(''user_id'', PStr []), (''reference'', PStr []), (''translation'', PStr ''ESV'')])))
     ''highlight'' =
     [[(''user_id'', PStr []), (''reference'', PStr []), (''translation'', PStr ''ESV''),
       (''color'', PStr ''yellow''), (''note'', PNone), (''_id'', PObjectId 0)]]"
  by code_simp

text \<open>
  C3, amended. For every create request for a user-owned record (Highlight, Bookmark, Note,
  VersePlaylist), schema construction rejects a required string field that is missing or is
  not a string, and a request body that fails validation is answered with 422; a required
  string field that is present is accepted whatever its content, the empty string included.
  In particular creating a Highlight with an empty reference succeeds, and the stored record
  carries the user_id of its request unchanged, empty or not.

  The statement has three parts. The first is about the four schema classes. The second is
  about each of the four create routes, for every request body: a required field that is
  missing or not a string gives 422, a body that fails validation gives 422 with its errors,
  and a body that validates gives 200 and appends the validated record, whose user_id is the
  string of the body. The third gives, for all strings (the empty one among them), the
  record each schema builds and the record each route stores.
\<close>

theorem schema_construction_accepts_any_string:
  "(schema \<in> {Highlight, Bookmark, Note, VersePlaylist} \<and> f \<in> set schema \<and>
    field_default f = None \<and> (\<forall>s. map_of kwargs (field_name f) \<noteq> Some (PStr s)) \<longrightarrow>
      (\<exists>errors. validate schema kwargs = Inl errors \<and>
         (Missing (field_name f) \<in> set errors \<or> WrongType (field_name f) \<in> set errors))) \<and>
   (validate CreateHighlight body = Inl errs \<longrightarrow>
      handle str db (PostHighlights body) = (Response 422 (ValidationErrors errs), db)) \<and>
   ((mk, model, coll) \<in>
       {(PostHighlights, CreateHighlight, ''highlight''),
        (PostBookmarks, CreateBookmark, ''bookmark''),
        (PostNotes, CreateNote, ''note''),
        (PostPlaylists, CreatePlaylist, ''verseplaylist'')} \<longrightarrow>
      (g \<in> set model \<and> field_default g = None \<and>
       (\<forall>s. map_of body (field_name g) \<noteq> Some (PStr s)) \<longrightarrow>
         (\<exists>errors. handle str db (mk body) = (Response 422 (ValidationErrors errors), db) \<and>
            (Missing (field_name g) \<in> set errors \<or> WrongType (field_name g) \<in> set errors))) \<and>
      (validate model body = Inl errs \<longrightarrow>
         handle str db (mk body) = (Response 422 (ValidationErrors errs), db)) \<and>
      (validate model body = Inr payload \<longrightarrow>
         handle str db (mk body) =
           (Response 200 (Created (str (PObjectId (next_id db)))),
            db\<lparr>collections := (collections db)(coll := collections db coll @
                  [AList.update ''_id'' (PObjectId (next_id db)) payload]),
               next_id := Suc (next_id db)\<rparr>) \<and>
         (\<exists>s. map_of body ''user_id'' = Some (PStr s) \<and>
              map_of (AList.update ''_id'' (PObjectId (next_id db)) payload) ''user_id'' =
                Some (PStr s)))) \<and>
   validate Highlight [(''user_id'', PStr u), (''reference'', PStr r), (''translation'', PStr t)] =
     Inr [(''user_id'', PStr u), (''reference'', PStr r), (''translation'', PStr t),
          (''color'', PStr ''yellow''), (''note'', PNone)] \<and>
   validate Bookmark [(''user_id'', PStr u), (''reference'', PStr r), (''translation'', PStr t)] =
     Inr [(''user_id'', PStr u), (''reference'', PStr r), (''translation'', PStr t),
          (''label'', PNone)] \<and>
   validate Note [(''user_id'', PStr u), (''reference'', PStr r), (''translation'', PStr t),
                  (''content'', PStr c)] =
     Inr [(''user_id'', PStr u), (''reference'', PStr r), (''translation'', PStr t),
          (''content'', PStr c)] \<and>
   validate VersePlaylist [(''user_id'', PStr u), (''title'', PStr c)] =
     Inr [(''user_id'', PStr u), (''title'', PStr c), (''mood'', PNone), (''theme'', PNone),
          (''references'', PList [])] \<and>
   handle str db (PostHighlights
      [(''user_id'', PStr u), (''reference'', PStr []), (''translation'', PStr t)]) =
   (Response 200 (Created (str (PObjectId (next_id db)))),
    db\<lparr>collections := (collections db)(''highlight'' := collections db ''highlight'' @
          [[(''user_id'', PStr u), (''reference'', PStr []), (''translation'', PStr t),
            (''color'', PStr ''yellow''), (''note'', PNone), (''_id'', PObjectId (next_id db))]]),
       next_id := Suc (next_id db)\<rparr>) \<and>
   handle str db (PostHighlights
      [(''user_id'', PStr u), (''reference'', PStr r), (''translation'', PStr t)]) =
   (Response 200 (Created (str (PObjectId (next_id db)))),
    db\<lparr>collections := (collections db)(''highlight'' := collections db ''highlight'' @
          [[(''user_id'', PStr u), (''reference'', PStr r), (''translation'', PStr t),
            (''color'', PStr ''yellow''), (''note'', PNone), (''_id'', PObjectId (next_id db))]]),
       next_id := Suc (next_id db)\<rparr>) \<and>
   handle str db (PostBookmarks
      [(''user_id'', PStr u), (''reference'', PStr r), (''translation'', PStr t)]) =
   (Response 200 (Created (str (PObjectId (next_id db)))),
    db\<lparr>collections := (collections db)(''bookmark'' := collections db ''bookmark'' @
          [[(''user_id'', PStr u), (''reference'', PStr r), (''translation'', PStr t),
            (''label'', PNone), (''_id'', PObjectId (next_id db))]]),
       next_id := Suc (next_id db)\<rparr>) \<and>
   handle str db (PostNotes
      [(''user_id'', PStr u), (''reference'', PStr r), (''translation'', PStr t),
       (''content'', PStr c)]) =
   (Response 200 (Created (str (PObjectId (next_id db)))),
    db\<lparr>collections := (collections db)(''note'' := collections db ''note'' @
          [[(''user_id'', PStr u), (''reference'', PStr r), (''translation'', PStr t),
            (''content'', PStr c), (''_id'', PObjectId (next_id db))]]),
       next_id := Suc (next_id db)\<rparr>) \<and>
   handle str db (PostPlaylists [(''user_id'', PStr u), (''title'', PStr c)]) =
   (Response 200 (Created (str (PObjectId (next_id db)))),
    db\<lparr>collections := (collections db)(''verseplaylist'' := collections db ''verseplaylist'' @
          [[(''user_id'', PStr u), (''title'', PStr c), (''mood'', PNone), (''theme'', PNone),
            (''references'', PList []), (''_id'', PObjectId (next_id db))]]),
       next_id := Suc (next_id db)\<rparr>)"
proof (intro conjI impI)
  assume h: "schema \<in> {Highlight, Bookmark, Note, VersePlaylist} \<and> f \<in> set schema \<and>
    field_default f = None \<and> (\<forall>s. map_of kwargs (field_name f) \<noteq> Some (PStr s))"
  then have "field_type f = TStr"
    using required_field_is_str [of schema f] by blast
  with h have "validate_field kwargs f = Inl (Missing (field_name f)) \<or>
               validate_field kwargs f = Inl (WrongType (field_name f))"
    using str_field_rejected [of f kwargs] by blast
  with h show "\<exists>errors. validate schema kwargs = Inl errors \<and>
         (Missing (field_name f) \<in> set errors \<or> WrongType (field_name f) \<in> set errors)"
    using validate_rejects [of f schema kwargs] by blast
next
  assume "validate CreateHighlight body = Inl errs"
  then show "handle str db (PostHighlights body) = (Response 422 (ValidationErrors errs), db)"
    by (simp add: post_def)
next
  assume route: "(mk, model, coll) \<in>
       {(PostHighlights, CreateHighlight, ''highlight''),
        (PostBookmarks, CreateBookmark, ''bookmark''),
        (PostNotes, CreateNote, ''note''),
        (PostPlaylists, CreatePlaylist, ''verseplaylist'')}"
  assume "g \<in> set model \<and> field_default g = None \<and>
       (\<forall>s. map_of body (field_name g) \<noteq> Some (PStr s))"
  then show "\<exists>errors. handle str db (mk body) = (Response 422 (ValidationErrors errors), db) \<and>
            (Missing (field_name g) \<in> set errors \<or> WrongType (field_name g) \<in> set errors)"
    using create_route_rejects_field [OF route, of g body str db] by blast
next
  assume route: "(mk, model, coll) \<in>
       {(PostHighlights, CreateHighlight, ''highlight''),
        (PostBookmarks, CreateBookmark, ''bookmark''),
        (PostNotes, CreateNote, ''note''),
        (PostPlaylists, CreatePlaylist, ''verseplaylist'')}"
  assume "validate model body = Inl errs"
  then show "handle str db (mk body) = (Response 422 (ValidationErrors errs), db)"
    by (rule create_route_rejects [OF route])
next
  assume route: "(mk, model, coll) \<in>
       {(PostHighlights, CreateHighlight, ''highlight''),
        (PostBookmarks, CreateBookmark, ''bookmark''),
        (PostNotes, CreateNote, ''note''),
        (PostPlaylists, CreatePlaylist, ''verseplaylist'')}"
  assume ok: "validate model body = Inr payload"
  from create_route_stores [OF route ok, of str db]
  show "handle str db (mk body) =
           (Response 200 (Created (str (PObjectId (next_id db)))),
            db\<lparr>collections := (collections db)(coll := collections db coll @
                  [AList.update ''_id'' (PObjectId (next_id db)) payload]),
               next_id := Suc (next_id db)\<rparr>)"
    by (rule conjunct1)
  from create_route_stores [OF route ok, of str db]
  show "\<exists>s. map_of body ''user_id'' = Some (PStr s) \<and>
              map_of (AList.update ''_id'' (PObjectId (next_id db)) payload) ''user_id'' =
                Some (PStr s)"
    by (rule conjunct2)
qed (rule validate_Highlight validate_Bookmark validate_Note validate_VersePlaylist
      post_highlight_stored post_bookmark_stored post_note_stored post_playlist_stored)+

theorem schema_construction_accepts_any_string_witness:
  "Note \<in> {Highlight, Bookmark, Note, VersePlaylist} \<and>
   Field ''content'' TStr None \<in> set Note \<and>
   field_default (Field ''content'' TStr None) = None \<and>
   \<not> (\<exists>s. map_of [(''user_id'', PStr ''u1''), (''reference'', PStr []), (''translation'', PStr ''ESV'')]
             (field_name (Field ''content'' TStr None)) = Some (PStr s)) \<and>
   (\<exists>errors. validate Note
        [(''user_id'', PStr ''u1''), (''reference'', PStr []), (''translation'', PStr ''ESV'')] =
        Inl errors \<and> Missing ''content'' \<in> set errors) \<and>
   validate CreateHighlight
     [(''user_id'', PStr ''u1''), (''reference'', PInt 3), (''translation'', PStr ''ESV'')] =
     Inl [WrongType ''reference''] \<and>
   handle str_id empty_db (PostHighlights
     [(''user_id'', PStr ''u1''), (''reference'', PInt 3), (''translation'', PStr ''ESV'')]) =
     (Response 422 (ValidationErrors [WrongType ''reference'']), empty_db) \<and>
   (PostNotes, CreateNote, ''note'') \<in>
       {(PostHighlights, CreateHighlight, ''highlight''),
        (PostBookmarks, CreateBookmark, ''bookmark''),
        (PostNotes, CreateNote, ''note''),
        (PostPlaylists, CreatePlaylist, ''verseplaylist'')} \<and>
   Field ''content'' TStr None \<in> set CreateNote \<and>
   validate CreateNote
     [(''user_id'', PStr ''u1''), (''reference'', PStr []), (''translation'', PStr ''ESV'')] =
     Inl [Missing ''content''] \<and>
   handle str_id empty_db (PostNotes
     [(''user_id'', PStr ''u1''), (''reference'', PStr []), (''translation'', PStr ''ESV'')]) =
     (Response 422 (ValidationErrors [Missing ''content'']), empty_db) \<and>
   (PostPlaylists, CreatePlaylist, ''verseplaylist'') \<in>
       {(PostHighlights, CreateHighlight, ''highlight''),
        (PostBookmarks, CreateBookmark, ''bookmark''),
        (PostNotes, CreateNote, ''note''),
        (PostPlaylists, CreatePlaylist, ''verseplaylist'')} \<and>
   validate CreatePlaylist [(''user_id'', PStr []), (''title'', PStr [])] =
     Inr [(''user_id'', PStr []), (''title'', PStr []), (''mood'', PNone), (''theme'', PNone),
          (''references'', PList [])] \<and>
   fst (handle str_id empty_db (PostPlaylists [(''user_id'', PStr []), (''title'', PStr [])])) =
     Response 200 (Created ''000000000000000000000000'') \<and>
   collections (snd (handle str_id empty_db
       (PostPlaylists [(''user_id'', PStr []), (''title'', PStr [])]))) ''verseplaylist'' =
     [[(''user_id'', PStr []), (''title'', PStr []), (''mood'', PNone), (''theme'', PNone),
       (''references'', PList []), (''_id'', PObjectId 0)]]"
proof -
  let ?routes = "{(PostHighlights, CreateHighlight, ''highlight''),
        (PostBookmarks, CreateBookmark, ''bookmark''),
        (PostNotes, CreateNote, ''note''),
        (PostPlaylists, CreatePlaylist, ''verseplaylist'')}"
  let ?kw = "[(''user_id'', PStr ''u1''), (''reference'', PStr []), (''translation'', PStr ''ESV'')]"
  let ?body = "[(''user_id'', PStr ''u1''), (''reference'', PInt 3), (''translation'', PStr ''ESV'')]"
  let ?pl = "[(''user_id'', PStr []), (''title'', PStr [])]"
  let ?rec = "[(''user_id'', PStr []), (''title'', PStr []), (''mood'', PNone), (''theme'', PNone),
          (''references'', PList [])]"
  have a: "Note \<in> {Highlight, Bookmark, Note, VersePlaylist}"
    by simp
  have b: "Field ''content'' TStr None \<in> set Note"
    by (simp add: Note_def)
  have c: "field_default (Field ''content'' TStr None) = None"
    by simp
  have d: "\<forall>s. map_of ?kw (field_name (Field ''content'' TStr None)) \<noteq> Some (PStr s)"
    by simp
  have e: "validate CreateHighlight ?body = Inl [WrongType ''reference'']"
    by (simp add: validate_def CreateHighlight_def)
  note T = schema_construction_accepts_any_string
    [where schema = Note and f = "Field ''content'' TStr None" and kwargs = ?kw
       and body = ?body and errs = "[WrongType ''reference'']" and str = str_id and db = empty_db]
  from a b c d
  have hyp: "Note \<in> {Highlight, Bookmark, Note, VersePlaylist} \<and>
      Field ''content'' TStr None \<in> set Note \<and>
      field_default (Field ''content'' TStr None) = None \<and>
      (\<forall>s. map_of ?kw (field_name (Field ''content'' TStr None)) \<noteq> Some (PStr s))"
    by (intro conjI)
  from T [THEN conjunct1] hyp
  have "\<exists>errors. validate Note ?kw = Inl errors \<and>
          (Missing (field_name (Field ''content'' TStr None)) \<in> set errors \<or>
           WrongType (field_name (Field ''content'' TStr None)) \<in> set errors)"
    by (rule mp)
  moreover have "validate Note ?kw = Inl [Missing ''content'']"
    by (simp add: validate_def Note_def)
  ultimately have f: "\<exists>errors. validate Note ?kw = Inl errors \<and> Missing ''content'' \<in> set errors"
    by auto
  from T [THEN conjunct2, THEN conjunct1] e
  have g: "handle str_id empty_db (PostHighlights ?body) =
      (Response 422 (ValidationErrors [WrongType ''reference'']), empty_db)"
    by (rule mp)
  from d have d': "\<not> (\<exists>s. map_of ?kw (field_name (Field ''content'' TStr None)) = Some (PStr s))"
    by blast
  have rn: "(PostNotes, CreateNote, ''note'') \<in> ?routes"
    by simp
  have bn: "Field ''content'' TStr None \<in> set CreateNote"
    by (simp add: CreateNote_def)
  have en: "validate CreateNote ?kw = Inl [Missing ''content'']"
    by (simp add: validate_def CreateNote_def)
  note N = schema_construction_accepts_any_string
    [where mk = PostNotes and model = CreateNote and coll = "''note''" and body = ?kw
       and errs = "[Missing ''content'']" and str = str_id and db = empty_db]
  note note_route = mp [OF N [THEN conjunct2, THEN conjunct2, THEN conjunct1] rn]
  from note_route [THEN conjunct2, THEN conjunct1] en
  have gn: "handle str_id empty_db (PostNotes ?kw) =
      (Response 422 (ValidationErrors [Missing ''content'']), empty_db)"
    by (rule mp)
  have rp: "(PostPlaylists, CreatePlaylist, ''verseplaylist'') \<in> ?routes"
    by simp
  have ep: "validate CreatePlaylist ?pl = Inr ?rec"
    by (simp add: validate_def CreatePlaylist_def)
  have zero: "zfill 24 0 = ''000000000000000000000000''"
    by code_simp
  note P = schema_construction_accepts_any_string
    [where mk = PostPlaylists and model = CreatePlaylist and coll = "''verseplaylist''"
       and body = ?pl and payload = ?rec and str = str_id and db = empty_db]
  note playlist_route = mp [OF P [THEN conjunct2, THEN conjunct2, THEN conjunct1] rp]
  from mp [OF playlist_route [THEN conjunct2, THEN conjunct2] ep]
  have "handle str_id empty_db (PostPlaylists ?pl) =
           (Response 200 (Created (str_id (PObjectId (next_id empty_db)))),
            empty_db\<lparr>collections := (collections empty_db)(''verseplaylist'' :=
                  collections empty_db ''verseplaylist'' @
                  [AList.update ''_id'' (PObjectId (next_id empty_db)) ?rec]),
               next_id := Suc (next_id empty_db)\<rparr>)"
    by (rule conjunct1)
  then have hp: "fst (handle str_id empty_db (PostPlaylists ?pl)) =
        Response 200 (Created ''000000000000000000000000'')"
    and sp: "collections (snd (handle str_id empty_db (PostPlaylists ?pl))) ''verseplaylist'' =
        [[(''user_id'', PStr []), (''title'', PStr []), (''mood'', PNone), (''theme'', PNone),
          (''references'', PList []), (''_id'', PObjectId 0)]]"
    by (simp_all add: empty_db_def zero)
  from a b c d' f e g rn bn en gn rp ep hp sp show ?thesis
    by (intro conjI)
qed

end
